theory Spec2Isabelle
  imports
    Complex_Main
    "HOL-Library.Char_ord"
    "HOL-Library.List_Lexorder"
    "HOL-Library.AList"
begin

section \<open>Schemas (app/schemas/inference.py)\<close>

datatype MetricType =
  CPU_USAGE | MEMORY_USAGE | REQUEST_RATE | ERROR_RATE | RESPONSE_TIME | DISK_IO

datatype RemediationAction =
  SCALE_UP | SCALE_DOWN | RESTART_POD | THROTTLE_API | CLEAR_CACHE | NO_ACTION | ALERT_ADMIN

datatype SeverityLevel = LOW | MEDIUM | HIGH | CRITICAL

text \<open>The string value of a \<open>MetricType\<close> member (\<open>m.metric_type.value\<close>).\<close>

fun metric_type_value :: "MetricType \<Rightarrow> string" where
  "metric_type_value CPU_USAGE = ''cpu_usage''"
| "metric_type_value MEMORY_USAGE = ''memory_usage''"
| "metric_type_value REQUEST_RATE = ''request_rate''"
| "metric_type_value ERROR_RATE = ''error_rate''"
| "metric_type_value RESPONSE_TIME = ''response_time''"
| "metric_type_value DISK_IO = ''disk_io''"

text \<open>
  Floats are modelled as reals, instants (\<open>datetime\<close>) as integer microseconds.
  \<open>labels\<close> is a \<open>Dict[str, str]\<close>: an association list with unique keys in
  insertion order.
\<close>

record MetricData =
  metric_type :: MetricType
  val :: real
  timestamp :: int
  labels :: "(string \<times> string) list"

record LogData =
  log_timestamp :: int
  level :: string
  message :: string
  service :: string

section \<open>Exceptions and dynamically typed values\<close>

text \<open>
  A raised exception is a value. \<open>LibraryError\<close> stands for whatever a fitted
  scikit-learn estimator raises; its argument is the message.
\<close>

datatype error =
  TypeError | ValueError | IndexError | AxisError | LibraryError string

text \<open>
  Values stored in a \<open>details\<close> dictionary (\<open>Dict[str, Any]\<close>).  \<open>VExc e\<close> is the
  string \<open>str(e)\<close> of a caught exception \<open>e\<close>.
\<close>

datatype pyvalue =
  VBool bool
| VFloat real
| VStr string
| VNames "string list"
| VDict "(string \<times> real) list"
| VExc error

type_synonym details = "(string \<times> pyvalue) list"

section \<open>Arrays\<close>

text \<open>
  The arrays of the pipeline are one-dimensional (\<open>np.array([])\<close>) or
  two-dimensional (\<open>reshape(1, -1)\<close>, training matrices).
\<close>

datatype ndarray = Arr1 "real list" | Arr2 "real list list"

fun size_nd :: "ndarray \<Rightarrow> nat" where
  "size_nd (Arr1 xs) = length xs"
| "size_nd (Arr2 rows) = sum_list (map length rows)"

text \<open>\<open>X.shape[0]\<close> and \<open>X.shape[1]\<close>; the latter raises on a 1-D array.\<close>

fun shape0 :: "ndarray \<Rightarrow> nat" where
  "shape0 (Arr1 xs) = length xs"
| "shape0 (Arr2 rows) = length rows"

fun shape1 :: "ndarray \<Rightarrow> error + nat" where
  "shape1 (Arr1 xs) = Inl IndexError"
| "shape1 (Arr2 []) = Inr 0"
| "shape1 (Arr2 (r # rows)) = Inr (length r)"

text \<open>
  \<open>zip(feature_names, X[0])\<close>: \<open>X[0]\<close> of an empty array raises IndexError, of a
  non-empty 1-D array it is a scalar, which \<open>zip\<close> rejects with TypeError.
\<close>

fun zip_row0 :: "string list \<Rightarrow> ndarray \<Rightarrow> error + (string \<times> real) list" where
  "zip_row0 names (Arr1 []) = Inl IndexError"
| "zip_row0 names (Arr1 (x # xs)) = Inl TypeError"
| "zip_row0 names (Arr2 []) = Inl IndexError"
| "zip_row0 names (Arr2 (r # rows)) = Inr (zip names r)"

text \<open>
  \<open>dict(pairs)\<close>: a later pair with the same key replaces the value and keeps the
  key's first position.
\<close>

definition dict_of :: "('k \<times> 'v) list \<Rightarrow> ('k \<times> 'v) list" where
  "dict_of ps = foldl (\<lambda>d (k, v). AList.update k v d) [] ps"

text \<open>\<open>d.get(k, default)\<close>\<close>

definition dict_get :: "('k \<times> 'v) list \<Rightarrow> 'k \<Rightarrow> 'v \<Rightarrow> 'v" where
  "dict_get d k dflt = (case map_of d k of None \<Rightarrow> dflt | Some v \<Rightarrow> v)"

section \<open>Strings\<close>

text \<open>\<open>str.lower()\<close>: the letters \<open>A\<close> .. \<open>Z\<close> become \<open>a\<close> .. \<open>z\<close>.\<close>

definition lower_char :: "char \<Rightarrow> char" where
  "lower_char c =
     (case map_of (zip ''ABCDEFGHIJKLMNOPQRSTUVWXYZ'' ''abcdefghijklmnopqrstuvwxyz'') c of
        None \<Rightarrow> c
      | Some l \<Rightarrow> l)"

definition lower :: "string \<Rightarrow> string" where
  "lower s = map lower_char s"

fun starts_with :: "string \<Rightarrow> string \<Rightarrow> bool" where
  "starts_with s [] = True"
| "starts_with [] (p # ps) = False"
| "starts_with (c # s) (p # ps) = (c = p \<and> starts_with s ps)"

text \<open>\<open>kw in s\<close>: \<open>kw\<close> occurs in \<open>s\<close> as a contiguous substring.\<close>

fun contains :: "string \<Rightarrow> string \<Rightarrow> bool" where
  "contains [] kw = (kw = [])"
| "contains (c # s) kw = (starts_with (c # s) kw \<or> contains s kw)"

section \<open>AnomalyDetector (app/services/anomaly_detector.py)\<close>

text \<open>
  The fitted isolation forest is known by what its methods return on an input:
  \<open>predict(X)\<close> an array of labels and \<open>score_samples(X)\<close> an array of scores, or
  an exception.  The elliptic envelope is fitted and never read.
\<close>

record IsolationForest =
  if_predict :: "ndarray \<Rightarrow> error + int list"
  if_score_samples :: "ndarray \<Rightarrow> error + real list"

record AnomalyDetector =
  contamination :: real
  isolation_forest :: IsolationForest
  elliptic_envelope_fitted :: bool
  is_trained :: bool

text \<open>Sequencing of statements that may raise: the first exception ends the block.\<close>

fun and_then :: "error + 'a \<Rightarrow> ('a \<Rightarrow> error + 'b) \<Rightarrow> error + 'b" where
  "and_then (Inl e) f = Inl e"
| "and_then (Inr x) f = f x"

text \<open>\<open>arr[0]\<close> on the array a library call returned.\<close>

definition index0 :: "'a list \<Rightarrow> error + 'a" where
  "index0 xs = (case xs of [] \<Rightarrow> Inl IndexError | x # _ \<Rightarrow> Inr x)"

text \<open>
  \<open>AnomalyDetector.train\<close>: \<open>fit_if\<close> and \<open>fit_ee\<close> are the library's \<open>fit\<close> methods.  An
  exception anywhere in the \<open>try\<close> block is logged and leaves \<open>is_trained\<close> as it
  was.
\<close>

definition AnomalyDetector_train ::
  "(IsolationForest \<Rightarrow> ndarray \<Rightarrow> error + IsolationForest) \<Rightarrow> (ndarray \<Rightarrow> error + unit) \<Rightarrow>
   AnomalyDetector \<Rightarrow> ndarray \<Rightarrow> AnomalyDetector" where
  "AnomalyDetector_train fit_if fit_ee d X =
     (if shape0 X < 10 then d
      else
        (case fit_if (isolation_forest d) X of
           Inl e \<Rightarrow> d
         | Inr forest \<Rightarrow>
             (case shape1 X of
                Inl e \<Rightarrow> d\<lparr>isolation_forest := forest\<rparr>
              | Inr n1 \<Rightarrow>
                  if shape0 X \<ge> n1 + 1 then
                    (case fit_ee X of
                       Inl e \<Rightarrow> d\<lparr>isolation_forest := forest\<rparr>
                     | Inr u \<Rightarrow>
                         d\<lparr>isolation_forest := forest,
                           elliptic_envelope_fitted := True,
                           is_trained := True\<rparr>)
                  else d\<lparr>isolation_forest := forest, is_trained := True\<rparr>)))"

definition normalize_score :: "real \<Rightarrow> real" where
  "normalize_score score = min 1.0 (max 0.0 ((- score) * 2))"

definition determine_severity :: "real \<Rightarrow> SeverityLevel" where
  "determine_severity anomaly_score =
     (if anomaly_score \<ge> 0.9 then CRITICAL
      else if anomaly_score \<ge> 0.7 then HIGH
      else if anomaly_score \<ge> 0.5 then MEDIUM
      else LOW)"

text \<open>\<open>np.mean\<close> of a non-empty list.\<close>

definition mean :: "real list \<Rightarrow> real" where
  "mean xs = sum_list xs / real (length xs)"

text \<open>\<open>[k for k in feature_dict.keys() if kw in k.lower()]\<close>\<close>

definition keys_with :: "string \<Rightarrow> (string \<times> real) list \<Rightarrow> string list" where
  "keys_with kw feature_dict = filter (\<lambda>k. contains (lower k) kw) (map fst feature_dict)"

text \<open>\<open>np.mean([feature_dict[k] for k in ks])\<close>, for keys of the dictionary.\<close>

definition avg_of :: "(string \<times> real) list \<Rightarrow> string list \<Rightarrow> real" where
  "avg_of feature_dict ks = mean (map (\<lambda>k. dict_get feature_dict k 0) ks)"

text \<open>\<open>not feature_names\<close>: the argument is \<open>None\<close> or an empty list.\<close>

fun no_names :: "string list option \<Rightarrow> bool" where
  "no_names None = True"
| "no_names (Some ns) = (ns = [])"

definition recommend_action ::
  "real \<Rightarrow> ndarray \<Rightarrow> string list option \<Rightarrow> error + RemediationAction" where
  "recommend_action anomaly_score X feature_names =
     (if anomaly_score < 0.5 then Inr NO_ACTION
      else if no_names feature_names \<or> size_nd X = 0 then Inr ALERT_ADMIN
      else
        (case zip_row0 (the feature_names) X of
           Inl e \<Rightarrow> Inl e
         | Inr pairs \<Rightarrow>
             (let feature_dict = dict_of pairs;
                  cpu_features = keys_with ''cpu'' feature_dict;
                  memory_features = keys_with ''memory'' feature_dict;
                  error_features = keys_with ''error'' feature_dict;
                  request_features = keys_with ''request'' feature_dict
              in
                if (cpu_features \<noteq> [] \<or> memory_features \<noteq> []) \<and>
                   ((if cpu_features \<noteq> [] then avg_of feature_dict cpu_features else 0) > 80 \<or>
                    (if memory_features \<noteq> [] then avg_of feature_dict memory_features else 0) > 80)
                then Inr SCALE_UP
                else if error_features \<noteq> [] \<and> avg_of feature_dict error_features > 10
                then Inr RESTART_POD
                else if request_features \<noteq> [] \<and> avg_of feature_dict request_features > 1000
                then Inr THROTTLE_API
                else if anomaly_score \<ge> 0.8 then Inr ALERT_ADMIN
                else Inr NO_ACTION)))"

text \<open>
  \<open>sorted(items, key=lambda x: abs(x[1]), reverse=True)[:5]\<close>: a stable sort by
  descending absolute value.
\<close>

definition get_affected_features :: "ndarray \<Rightarrow> string list option \<Rightarrow> error + string list" where
  "get_affected_features X feature_names =
     (if no_names feature_names \<or> size_nd X = 0 then Inr []
      else
        (case zip_row0 (the feature_names) X of
           Inl e \<Rightarrow> Inl e
         | Inr pairs \<Rightarrow>
             Inr (map fst (take 5 (sort_key (\<lambda>(k, v). - \<bar>v\<bar>) (dict_of pairs))))))"

type_synonym anomaly_result = "bool \<times> real \<times> SeverityLevel \<times> RemediationAction \<times> details"

text \<open>The value returned by the \<open>except\<close> branch of \<open>predict\<close>.\<close>

definition anomaly_failed :: "error \<Rightarrow> anomaly_result" where
  "anomaly_failed e = (False, 0.0, LOW, NO_ACTION, [(''error'', VExc e)])"

text \<open>The body of the \<open>try\<close> block of \<open>AnomalyDetector.predict\<close>; \<open>Inl\<close> is a raised exception.\<close>

definition AnomalyDetector_predict_try ::
  "AnomalyDetector \<Rightarrow> ndarray \<Rightarrow> string list option \<Rightarrow> error + anomaly_result" where
  "AnomalyDetector_predict_try d X feature_names =
     and_then (and_then (if_predict (isolation_forest d) X) index0) (\<lambda>iso_prediction.
     and_then (and_then (if_score_samples (isolation_forest d) X) index0) (\<lambda>iso_score.
       let is_anomaly_iso = (iso_prediction = - 1);
           anomaly_score = normalize_score (- iso_score);
           severity = determine_severity anomaly_score
       in
     and_then (recommend_action anomaly_score X feature_names) (\<lambda>action.
     and_then (get_affected_features X feature_names) (\<lambda>affected_features.
       Inr (is_anomaly_iso, anomaly_score, severity, action,
            [(''anomaly_score'', VFloat anomaly_score),
             (''affected_features'', VNames affected_features),
             (''model_confidence'', VFloat (1.0 - \<bar>iso_score\<bar> / 10.0)),
             (''threshold_used'', VFloat (contamination d))])))))"

definition AnomalyDetector_predict :: "AnomalyDetector \<Rightarrow> ndarray \<Rightarrow> string list option \<Rightarrow> anomaly_result" where
  "AnomalyDetector_predict d X feature_names =
     (if \<not> is_trained d then (False, 0.0, LOW, NO_ACTION, [])
      else
        (case AnomalyDetector_predict_try d X feature_names of
           Inl e \<Rightarrow> anomaly_failed e
         | Inr result \<Rightarrow> result))"

section \<open>FailureDetector (app/services/failure_detector.py)\<close>

text \<open>
  The fitted random forest, known by what its methods return: \<open>predict_proba(X)\<close>
  an array of rows of class probabilities, \<open>predict(X)\<close> an array of labels,
  \<open>feature_importances_\<close> an array, or an exception.
\<close>

record RandomForestClassifier =
  rf_predict_proba :: "ndarray \<Rightarrow> error + real list list"
  rf_predict :: "ndarray \<Rightarrow> error + int list"
  rf_feature_importances :: "error + real list"

record FailureDetector =
  classifier :: RandomForestClassifier
  fd_is_trained :: bool

type_synonym failure_result =
  "bool \<times> string option \<times> SeverityLevel \<times> RemediationAction list \<times> real \<times>
   string option \<times> string list \<times> details"

definition FailureDetector_train ::
  "(RandomForestClassifier \<Rightarrow> ndarray \<Rightarrow> int list \<Rightarrow> error + RandomForestClassifier) \<Rightarrow>
   FailureDetector \<Rightarrow> ndarray \<Rightarrow> int list \<Rightarrow> FailureDetector" where
  "FailureDetector_train fit d X y =
     (if shape0 X < 10 then d
      else
        (case fit (classifier d) X y of
           Inl e \<Rightarrow> d
         | Inr c \<Rightarrow> d\<lparr>classifier := c, fd_is_trained := True\<rparr>))"

text \<open>
  \<open>fmt_pct\<close> is the float formatting \<open>f"{x:.2%}"\<close>, a parameter of the model.
\<close>

definition heuristic_detection ::
  "(real \<Rightarrow> string) \<Rightarrow> ndarray \<Rightarrow> string list option \<Rightarrow> error + failure_result" where
  "heuristic_detection fmt_pct X feature_names =
     (if size_nd X = 0 \<or> no_names feature_names
      then Inr (False, None, LOW, [NO_ACTION], 0.0, None, [], [])
      else
        and_then (zip_row0 (the feature_names) X) (\<lambda>pairs.
          let feature_dict = dict_of pairs;
              error_rate = dict_get feature_dict ''error_rate'' 0;
              error_count = dict_get feature_dict ''error_count'' 0
          in
            if error_rate > 0.2 \<or> error_count > 50 then
              Inr (True, Some ''high_error_rate'', HIGH, [RESTART_POD, ALERT_ADMIN], 0.8,
                   Some (''High error rate detected: '' @ fmt_pct error_rate),
                   [''api-service''],
                   [(''heuristic'', VBool True), (''error_rate'', VFloat error_rate)])
            else if map_of feature_dict ''keyword_connection'' \<noteq> None \<and>
                    dict_get feature_dict ''keyword_connection'' 0 > 10 then
              Inr (True, Some ''connection_timeout'', MEDIUM, [RESTART_POD], 0.7,
                   Some ''Multiple connection timeout errors detected'',
                   [''database'', ''api-service''],
                   [(''heuristic'', VBool True)])
            else Inr (False, None, LOW, [NO_ACTION], 0.0, None, [], [])))"

definition identify_failure_type :: "ndarray \<Rightarrow> string list option \<Rightarrow> error + string" where
  "identify_failure_type X feature_names =
     (if no_names feature_names \<or> size_nd X = 0 then Inr ''unknown''
      else
        and_then (zip_row0 (the feature_names) X) (\<lambda>pairs.
          let feature_dict = dict_of pairs in
            if dict_get feature_dict ''error_rate'' 0 > 0.3 then Inr ''service_down''
            else if dict_get feature_dict ''keyword_timeout'' 0 > 5 then Inr ''connection_timeout''
            else if dict_get feature_dict ''keyword_exception'' 0 > 10
            then Inr ''unhandled_exception''
            else Inr ''unknown''))"

definition determine_failure_severity ::
  "real \<Rightarrow> ndarray \<Rightarrow> string list option \<Rightarrow> SeverityLevel" where
  "determine_failure_severity confidence X feature_names =
     (if confidence \<ge> 0.9 then CRITICAL
      else if confidence \<ge> 0.7 then HIGH
      else if confidence \<ge> 0.5 then MEDIUM
      else LOW)"

definition actions_map :: "(string \<times> RemediationAction list) list" where
  "actions_map =
     [(''service_down'', [RESTART_POD, ALERT_ADMIN]),
      (''high_latency'', [SCALE_UP, THROTTLE_API]),
      (''memory_leak'', [RESTART_POD, ALERT_ADMIN]),
      (''connection_timeout'', [RESTART_POD, SCALE_UP]),
      (''unknown'', [ALERT_ADMIN])]"

definition recommend_remediation_actions ::
  "string \<Rightarrow> SeverityLevel \<Rightarrow> RemediationAction list" where
  "recommend_remediation_actions failure_type severity =
     (let actions = dict_get actions_map failure_type [ALERT_ADMIN] in
        if severity \<in> {HIGH, CRITICAL} \<and> ALERT_ADMIN \<notin> set actions
        then actions @ [ALERT_ADMIN]
        else actions)"

text \<open>\<open>sep.join(parts)\<close>\<close>

fun join :: "string \<Rightarrow> string list \<Rightarrow> string" where
  "join sep [] = []"
| "join sep [p] = p"
| "join sep (p # q # ps) = p @ sep @ join sep (q # ps)"

definition analyze_root_cause ::
  "(real \<Rightarrow> string) \<Rightarrow> ndarray \<Rightarrow> string list option \<Rightarrow> error + string" where
  "analyze_root_cause fmt_pct X feature_names =
     (if no_names feature_names \<or> size_nd X = 0 then Inr ''Unable to determine root cause''
      else
        and_then (zip_row0 (the feature_names) X) (\<lambda>pairs.
          let feature_dict = dict_of pairs;
              causes =
                (if dict_get feature_dict ''error_rate'' 0 > 0.2
                 then [''High error rate ('' @ fmt_pct (dict_get feature_dict ''error_rate'' 0) @ '')'']
                 else []) @
                (if dict_get feature_dict ''keyword_timeout'' 0 > 5
                 then [''Multiple timeout errors''] else []) @
                (if dict_get feature_dict ''keyword_connection'' 0 > 5
                 then [''Connection failures''] else [])
          in
            if causes \<noteq> [] then Inr (join '' and '' causes)
            else Inr ''Anomalous behavior detected''))"

definition identify_affected_services :: "ndarray \<Rightarrow> string list option \<Rightarrow> string list" where
  "identify_affected_services X feature_names = [''api-service'', ''worker-service'']"

text \<open>\<open>_get_feature_importance\<close> has a \<open>try\<close> of its own: any exception gives \<open>{}\<close>.\<close>

definition get_feature_importance ::
  "FailureDetector \<Rightarrow> string list option \<Rightarrow> (string \<times> real) list" where
  "get_feature_importance d feature_names =
     (if \<not> fd_is_trained d \<or> no_names feature_names then []
      else
        (case rf_feature_importances (classifier d) of
           Inl e \<Rightarrow> []
         | Inr importances \<Rightarrow> dict_of (zip (the feature_names) importances)))"

text \<open>\<open>float(np.max(proba))\<close>; \<open>np.max\<close> of an empty array raises ValueError.\<close>

definition np_max :: "real list \<Rightarrow> error + real" where
  "np_max xs = (case xs of [] \<Rightarrow> Inl ValueError | x # rest \<Rightarrow> Inr (fold max rest x))"

definition failure_failed :: "error \<Rightarrow> failure_result" where
  "failure_failed e = (False, None, LOW, [NO_ACTION], 0.0, None, [], [(''error'', VExc e)])"

text \<open>The body of the \<open>try\<close> block of \<open>FailureDetector.predict\<close>.\<close>

definition FailureDetector_predict_try ::
  "(real \<Rightarrow> string) \<Rightarrow> FailureDetector \<Rightarrow> ndarray \<Rightarrow> string list option \<Rightarrow>
   error + failure_result" where
  "FailureDetector_predict_try fmt_pct d X feature_names =
     and_then (and_then (rf_predict_proba (classifier d) X) index0) (\<lambda>proba.
     and_then (and_then (rf_predict (classifier d) X) index0) (\<lambda>prediction.
     and_then (np_max proba) (\<lambda>confidence.
       let failure_detected = (prediction = 1);
           details =
             [(''confidence'', VFloat confidence),
              (''prediction_probability'',
                 VFloat (if length proba > 1 then proba ! 1 else confidence)),
              (''feature_importance'', VDict (get_feature_importance d feature_names))]
       in
         if failure_detected then
           and_then (identify_failure_type X feature_names) (\<lambda>failure_type.
             let severity = determine_failure_severity confidence X feature_names;
                 actions = recommend_remediation_actions failure_type severity
             in
           and_then (analyze_root_cause fmt_pct X feature_names) (\<lambda>root_cause.
             Inr (failure_detected, Some failure_type, severity, actions, confidence,
                  Some root_cause, identify_affected_services X feature_names, details)))
         else
           Inr (failure_detected, None, LOW, [NO_ACTION], confidence, None, [], details))))"

text \<open>
  \<open>FailureDetector.predict\<close>.  The heuristic of the untrained detector runs outside
  the \<open>try\<close> block, so what it raises leaves \<open>predict\<close>.
\<close>

definition FailureDetector_predict ::
  "(real \<Rightarrow> string) \<Rightarrow> FailureDetector \<Rightarrow> ndarray \<Rightarrow> string list option \<Rightarrow>
   error + failure_result" where
  "FailureDetector_predict fmt_pct d X feature_names =
     (if \<not> fd_is_trained d then heuristic_detection fmt_pct X feature_names
      else
        (case FailureDetector_predict_try fmt_pct d X feature_names of
           Inl e \<Rightarrow> Inr (failure_failed e)
         | Inr result \<Rightarrow> Inr result))"

section \<open>DataPreprocessor (app/services/preprocessing.py)\<close>

subsection \<open>Metrics\<close>

text \<open>
  A cell of the intermediate table.  A row is the dictionary
  \<open>{'timestamp': .., 'metric_type': .., 'value': .., **m.labels}\<close>: the labels are
  splatted last, so a label whose key is one of the three column names replaces
  that column's value by the label's string.
\<close>

datatype cell = CTime int | CNum real | CStr string

type_synonym row = "(string \<times> cell) list"

definition metric_row :: "MetricData \<Rightarrow> row" where
  "metric_row m =
     dict_of
       ([(''timestamp'', CTime (timestamp m)),
         (''metric_type'', CStr (metric_type_value (metric_type m))),
         (''value'', CNum (val m))] @
        map (\<lambda>(k, v). (k, CStr v)) (labels m))"

definition column :: "string \<Rightarrow> row \<Rightarrow> cell" where
  "column name r = dict_get r name (CStr [])"

fun is_time :: "cell \<Rightarrow> bool" where
  "is_time (CTime t) = True"
| "is_time c = False"

fun is_str :: "cell \<Rightarrow> bool" where
  "is_str (CStr s) = True"
| "is_str c = False"

fun time_of :: "cell \<Rightarrow> int" where
  "time_of (CTime t) = t"
| "time_of c = 0"

fun str_of :: "cell \<Rightarrow> string" where
  "str_of (CStr s) = s"
| "str_of c = []"

text \<open>
  \<open>df.sort_values('timestamp')\<close>, as a stable sort (the order pandas gives to rows
  of equal timestamp is not specified).  A column that mixes instants and strings
  cannot be ordered.
\<close>

definition sort_values_timestamp :: "row list \<Rightarrow> error + row list" where
  "sort_values_timestamp df =
     (if list_all (\<lambda>r. is_time (column ''timestamp'' r)) df
      then Inr (sort_key (\<lambda>r. time_of (column ''timestamp'' r)) df)
      else if list_all (\<lambda>r. is_str (column ''timestamp'' r)) df
      then Inr (sort_key (\<lambda>r. str_of (column ''timestamp'' r)) df)
      else Inl TypeError)"

text \<open>\<open>Series.unique()\<close>: the distinct values in order of first appearance.\<close>

definition unique :: "'a list \<Rightarrow> 'a list" where
  "unique xs = rev (remdups (rev xs))"

text \<open>
  \<open>metric_df['value'].values\<close> for the reductions: a string in the column makes
  \<open>np.mean\<close> raise TypeError.
\<close>

fun numeric_values :: "cell list \<Rightarrow> error + real list" where
  "numeric_values [] = Inr []"
| "numeric_values (CNum v # cs) = and_then (numeric_values cs) (\<lambda>vs. Inr (v # vs))"
| "numeric_values (c # cs) = Inl TypeError"

definition np_std :: "real list \<Rightarrow> real" where
  "np_std xs = sqrt (sum_list (map (\<lambda>x. (x - mean xs)\<^sup>2) xs) / real (length xs))"

text \<open>Minimum and maximum of a non-empty sequence.\<close>

definition np_min :: "'a::linorder list \<Rightarrow> 'a" where
  "np_min xs = fold min (tl xs) (hd xs)"

definition np_max_of :: "'a::linorder list \<Rightarrow> 'a" where
  "np_max_of xs = fold max (tl xs) (hd xs)"

definition np_median :: "real list \<Rightarrow> real" where
  "np_median xs =
     (let s = sort xs; n = length xs in
        if even n then (s ! (n div 2 - 1) + s ! (n div 2)) / 2 else s ! (n div 2))"

text \<open>
  \<open>np.polyfit(np.arange(n), values, 1)[0]\<close>: the slope of the least-squares line.
\<close>

definition polyfit_slope :: "real list \<Rightarrow> real" where
  "polyfit_slope ys =
     (let xs = map real [0..<length ys]; xbar = mean xs; ybar = mean ys in
        sum_list (map2 (\<lambda>x y. (x - xbar) * (y - ybar)) xs ys) /
        sum_list (map (\<lambda>x. (x - xbar)\<^sup>2) xs))"

text \<open>The seven assignments to \<open>features\<close> for one metric type, in order.\<close>

definition group_features :: "string \<Rightarrow> real list \<Rightarrow> (string \<times> real) list" where
  "group_features mt vals =
     [(mt @ ''_mean'', mean vals),
      (mt @ ''_std'', np_std vals),
      (mt @ ''_min'', np_min vals),
      (mt @ ''_max'', np_max_of vals),
      (mt @ ''_median'', np_median vals),
      (mt @ ''_rate_of_change'',
         if length vals > 1 then (last vals - hd vals) / real (length vals) else 0),
      (mt @ ''_trend'', if length vals > 2 then polyfit_slope vals else 0)]"

fun map_err :: "('a \<Rightarrow> error + 'b) \<Rightarrow> 'a list \<Rightarrow> error + 'b list" where
  "map_err f [] = Inr []"
| "map_err f (x # xs) = and_then (f x) (\<lambda>y. and_then (map_err f xs) (\<lambda>ys. Inr (y # ys)))"

text \<open>
  \<open>sorted(features.keys())\<close> and \<open>[features[name] for name in feature_names]\<close>.
  \<open>np.nan_to_num\<close> is the identity on the reals.
\<close>

definition to_array :: "(string \<times> real) list \<Rightarrow> ndarray \<times> string list" where
  "to_array features =
     (let feature_names = sort (map fst features) in
        (Arr2 [map (\<lambda>name. dict_get features name 0) feature_names], feature_names))"

definition preprocess_metrics :: "MetricData list \<Rightarrow> error + ndarray \<times> string list" where
  "preprocess_metrics metrics =
     (if metrics = [] then Inr (Arr1 [], [])
      else
        and_then (sort_values_timestamp (map metric_row metrics)) (\<lambda>df.
        and_then
          (map_err
             (\<lambda>mt.
                and_then
                  (numeric_values
                     (map (column ''value'') (filter (\<lambda>r. column ''metric_type'' r = mt) df)))
                  (\<lambda>vals. Inr (group_features (str_of mt) vals)))
             (unique (map (column ''metric_type'') df)))
          (\<lambda>groups. Inr (to_array (dict_of (concat groups))))))"

subsection \<open>Logs\<close>

text \<open>Counting loop: \<open>counts[k] = counts.get(k, 0) + 1\<close> for the key of every entry.\<close>

definition count_by :: "('a \<Rightarrow> 'k) \<Rightarrow> 'a list \<Rightarrow> ('k \<times> nat) list" where
  "count_by f xs = foldl (\<lambda>d x. AList.update (f x) (dict_get d (f x) 0 + 1) d) [] xs"

definition error_keywords :: "string list" where
  "error_keywords =
     [''timeout'', ''connection'', ''failed'', ''exception'', ''error'', ''crashed'']"

text \<open>The inner loop over the keywords for one lower-cased message.\<close>

definition scan_message :: "string \<Rightarrow> (string \<times> nat) list \<Rightarrow> (string \<times> nat) list" where
  "scan_message message_lower keyword_counts =
     foldl
       (\<lambda>d keyword.
          if contains message_lower keyword
          then AList.update keyword (dict_get d keyword 0 + 1) d
          else d)
       keyword_counts error_keywords"

text \<open>The outer loop over the recent logs, from \<open>{kw: 0 for kw in error_keywords}\<close>.\<close>

definition keyword_counts :: "LogData list \<Rightarrow> (string \<times> nat) list" where
  "keyword_counts recent_logs =
     foldl
       (\<lambda>d log. if lower (level log) = ''error'' then scan_message (lower (message log)) d else d)
       (map (\<lambda>kw. (kw, 0)) error_keywords)
       recent_logs"

definition log_features :: "LogData list \<Rightarrow> (string \<times> real) list" where
  "log_features recent_logs =
     (let level_counts = count_by (\<lambda>log. lower (level log)) recent_logs;
          error_count = dict_get level_counts ''error'' 0;
          total_logs = length recent_logs;
          service_counts = count_by service recent_logs
      in
        dict_of
          ([(''error_count'', real error_count),
            (''warn_count'', real (dict_get level_counts ''warn'' 0)),
            (''info_count'', real (dict_get level_counts ''info'' 0)),
            (''total_logs'', real total_logs),
            (''error_rate'', if total_logs > 0 then real error_count / real total_logs else 0),
            (''unique_services'', real (length service_counts)),
            (''max_service_errors'',
               if service_counts \<noteq> [] then real (np_max_of (map snd service_counts)) else 0)] @
           map (\<lambda>(keyword, count). (''keyword_'' @ keyword, real count))
             (keyword_counts recent_logs)))"

text \<open>
  \<open>preprocess_logs\<close> has no parameter for the current instant: it calls
  \<open>datetime.utcnow()\<close>.  The reading of the system clock at the call is the
  argument \<open>utcnow\<close> of the model; \<open>window_size\<close> is in seconds.
\<close>

definition preprocess_logs :: "int \<Rightarrow> LogData list \<Rightarrow> int \<Rightarrow> ndarray \<times> string list" where
  "preprocess_logs utcnow logs window_size =
     (if logs = [] then (Arr1 [], [])
      else
        (let now = utcnow;
             cutoff = now - window_size * 1000000;
             recent_logs = filter (\<lambda>log. log_timestamp log \<ge> cutoff) logs
         in
           if recent_logs = [] then (Arr1 [], [])
           else to_array (log_features recent_logs)))"

subsection \<open>Combining\<close>

text \<open>
  \<open>np.concatenate([a, b], axis=1)\<close> needs two 2-D arrays with the same number of
  rows.
\<close>

definition concatenate_axis1 :: "ndarray \<Rightarrow> ndarray \<Rightarrow> error + ndarray" where
  "concatenate_axis1 a b =
     (case (a, b) of
        (Arr2 ra, Arr2 rb) \<Rightarrow>
          if length ra = length rb then Inr (Arr2 (map2 (@) ra rb)) else Inl ValueError
      | (Arr1 xa, Arr1 xb) \<Rightarrow> Inl AxisError
      | _ \<Rightarrow> Inl ValueError)"

definition combine_features :: "ndarray \<Rightarrow> ndarray \<Rightarrow> error + ndarray" where
  "combine_features metric_features log_features' =
     (if size_nd metric_features = 0 \<and> size_nd log_features' = 0 then Inr (Arr1 [])
      else if size_nd metric_features = 0 then Inr log_features'
      else if size_nd log_features' = 0 then Inr metric_features
      else concatenate_axis1 metric_features log_features')"

section \<open>ModelService (app/services/model_service.py)\<close>

record Settings =
  anomaly_threshold :: real
  failure_detection_window :: int

record ModelService =
  anomaly_detector :: AnomalyDetector
  failure_detector :: FailureDetector
  models_loaded :: bool

text \<open>The responses, without the \<open>timestamp\<close> field that the schema fills in.\<close>

record AnomalyDetectionResponse =
  is_anomaly :: bool
  anomaly_score :: real
  severity :: SeverityLevel
  recommended_action :: RemediationAction
  confidence :: real
  affected_metrics :: "string set"
  details :: details

record FailureDetectionResponse =
  failure_detected :: bool
  failure_type :: "string option"
  f_severity :: SeverityLevel
  recommended_actions :: "RemediationAction list"
  f_confidence :: real
  root_cause :: "string option"
  affected_services :: "string list"
  f_details :: details

text \<open>A \<open>float\<close> field of a response accepts a number only.\<close>

fun as_float :: "pyvalue \<Rightarrow> error + real" where
  "as_float (VFloat x) = Inr x"
| "as_float v = Inl ValueError"

definition anomaly_response_failed :: "error \<Rightarrow> AnomalyDetectionResponse" where
  "anomaly_response_failed e =
     \<lparr>is_anomaly = False, anomaly_score = 0.0, severity = LOW,
      recommended_action = NO_ACTION, confidence = 0.0, affected_metrics = {},
      details = [(''error'', VExc e)]\<rparr>"

text \<open>The body of the \<open>try\<close> block of \<open>detect_anomaly\<close>.\<close>

definition detect_anomaly_try ::
  "ModelService \<Rightarrow> MetricData list \<Rightarrow> error + AnomalyDetectionResponse" where
  "detect_anomaly_try svc metrics =
     and_then (preprocess_metrics metrics) (\<lambda>(features, feature_names).
       if size_nd features = 0 then
         Inr \<lparr>is_anomaly = False, anomaly_score = 0.0, severity = LOW,
              recommended_action = NO_ACTION, confidence = 0.0, affected_metrics = {},
              details = [(''error'', VStr ''No features extracted'')]\<rparr>
       else
         (case AnomalyDetector_predict (anomaly_detector svc) features (Some feature_names) of
            (is_anomaly', score, severity', action, details') \<Rightarrow>
              and_then (as_float (dict_get details' ''model_confidence'' (VFloat 0.0))) (\<lambda>c.
                Inr \<lparr>is_anomaly = is_anomaly', anomaly_score = score, severity = severity',
                     recommended_action = action, confidence = c,
                     affected_metrics = set (map (\<lambda>m. metric_type_value (metric_type m)) metrics),
                     details = details'\<rparr>)))"

definition detect_anomaly :: "ModelService \<Rightarrow> MetricData list \<Rightarrow> AnomalyDetectionResponse" where
  "detect_anomaly svc metrics =
     (case detect_anomaly_try svc metrics of
        Inl e \<Rightarrow> anomaly_response_failed e
      | Inr response \<Rightarrow> response)"

definition failure_response_failed :: "error \<Rightarrow> FailureDetectionResponse" where
  "failure_response_failed e =
     \<lparr>failure_detected = False, failure_type = None, f_severity = LOW,
      recommended_actions = [NO_ACTION], f_confidence = 0.0, root_cause = None,
      affected_services = [], f_details = [(''error'', VExc e)]\<rparr>"

text \<open>
  The body of the \<open>try\<close> block of \<open>detect_failure\<close>; \<open>utcnow\<close> is the clock
  reading that \<open>preprocess_logs\<close> takes.
\<close>

definition detect_failure_try ::
  "Settings \<Rightarrow> (real \<Rightarrow> string) \<Rightarrow> int \<Rightarrow> ModelService \<Rightarrow> MetricData list \<Rightarrow> LogData list \<Rightarrow>
   error + FailureDetectionResponse" where
  "detect_failure_try settings fmt_pct utcnow svc metrics logs =
     and_then (preprocess_metrics metrics) (\<lambda>(metric_features, metric_names).
       case preprocess_logs utcnow logs (failure_detection_window settings) of
         (log_features', log_names) \<Rightarrow>
     and_then (combine_features metric_features log_features') (\<lambda>features.
       let feature_names = metric_names @ log_names in
         if size_nd features = 0 then
           Inr \<lparr>failure_detected = False, failure_type = None, f_severity = LOW,
                recommended_actions = [NO_ACTION], f_confidence = 0.0, root_cause = None,
                affected_services = [],
                f_details = [(''error'', VStr ''No features extracted'')]\<rparr>
         else
           and_then
             (FailureDetector_predict fmt_pct (failure_detector svc) features (Some feature_names))
             (\<lambda>(detected, ftype, sev, actions, conf, cause, services, details').
                Inr \<lparr>failure_detected = detected, failure_type = ftype, f_severity = sev,
                     recommended_actions = actions, f_confidence = conf, root_cause = cause,
                     affected_services = services, f_details = details'\<rparr>)))"

definition detect_failure ::
  "Settings \<Rightarrow> (real \<Rightarrow> string) \<Rightarrow> int \<Rightarrow> ModelService \<Rightarrow> MetricData list \<Rightarrow> LogData list \<Rightarrow>
   FailureDetectionResponse" where
  "detect_failure settings fmt_pct utcnow svc metrics logs =
     (case detect_failure_try settings fmt_pct utcnow svc metrics logs of
        Inl e \<Rightarrow> failure_response_failed e
      | Inr response \<Rightarrow> response)"

section \<open>Reference definitions\<close>

subsection \<open>Reading a named feature\<close>

text \<open>
  The value of a named feature of a row, as the detectors read it:
  \<open>dict(zip(feature_names, X[0])).get(name, 0)\<close>.
\<close>

definition row_feature :: "string list option \<Rightarrow> real list \<Rightarrow> string \<Rightarrow> real" where
  "row_feature feature_names row name =
     (case feature_names of
        None \<Rightarrow> 0
      | Some names \<Rightarrow> dict_get (dict_of (zip names row)) name 0)"

subsection \<open>The specification's wording, for comparison with the code\<close>

text \<open>
  The score formula as the specification words it:
  \<open>anomaly_score = clamp(raw_negated_score * 2, 0, 1)\<close>, with
  \<open>raw_negated_score\<close> the negation of the raw score of the fitted model.
\<close>

definition clamp :: "real \<Rightarrow> real \<Rightarrow> real \<Rightarrow> real" where
  "clamp x lo hi = min hi (max lo x)"

definition anomaly_score_spec :: "real \<Rightarrow> real" where
  "anomaly_score_spec raw_score = clamp ((- raw_score) * 2) 0 1"

text \<open>
  Action selection as the specification words it: one mean over all the features
  whose name contains \<open>cpu\<close> or \<open>memory\<close>, and no rule for missing names.
\<close>

definition recommend_action_spec :: "real \<Rightarrow> (string \<times> real) list \<Rightarrow> RemediationAction" where
  "recommend_action_spec score features =
     (let cpu_memory =
            filter (\<lambda>(k, v). contains (lower k) ''cpu'' \<or> contains (lower k) ''memory'') features;
          errors = filter (\<lambda>(k, v). contains (lower k) ''error'') features;
          requests = filter (\<lambda>(k, v). contains (lower k) ''request'') features
      in
        if score < 0.5 then NO_ACTION
        else if cpu_memory \<noteq> [] \<and> mean (map snd cpu_memory) > 80 then SCALE_UP
        else if errors \<noteq> [] \<and> mean (map snd errors) > 10 then RESTART_POD
        else if requests \<noteq> [] \<and> mean (map snd requests) > 1000 then THROTTLE_API
        else if score \<ge> 0.8 then ALERT_ADMIN
        else NO_ACTION)"

subsection \<open>Example detectors\<close>

text \<open>A trained detector whose forest answers label \<open>-1\<close> and raw score \<open>-0.4\<close>.\<close>

definition trained_example :: AnomalyDetector where
  "trained_example =
     \<lparr>contamination = 0.15,
      isolation_forest =
        \<lparr>if_predict = (\<lambda>X. Inr [- 1]), if_score_samples = (\<lambda>X. Inr [- 0.4])\<rparr>,
      elliptic_envelope_fitted = True,
      is_trained = True\<rparr>"

definition untrained_example :: AnomalyDetector where
  "untrained_example =
     \<lparr>contamination = 0.15,
      isolation_forest =
        \<lparr>if_predict = (\<lambda>X. Inl (LibraryError ''not fitted'')),
         if_score_samples = (\<lambda>X. Inl (LibraryError ''not fitted''))\<rparr>,
      elliptic_envelope_fitted = False,
      is_trained = False\<rparr>"

definition untrained_failure_detector :: FailureDetector where
  "untrained_failure_detector =
     \<lparr>classifier =
        \<lparr>rf_predict_proba = (\<lambda>X. Inl (LibraryError ''not fitted'')),
         rf_predict = (\<lambda>X. Inl (LibraryError ''not fitted'')),
         rf_feature_importances = Inl (LibraryError ''not fitted'')\<rparr>,
      fd_is_trained = False\<rparr>"

subsection \<open>Reading the output of an extractor\<close>

text \<open>
  The value of a named feature in the pair an extractor returns:
  \<open>dict(zip(feature_names, features[0]))[name]\<close>.
\<close>

definition feature_of :: "ndarray \<times> string list \<Rightarrow> string \<Rightarrow> real option" where
  "feature_of out name =
     (case zip_row0 (snd out) (fst out) of
        Inl e \<Rightarrow> None
      | Inr pairs \<Rightarrow> map_of (dict_of pairs) name)"

subsection \<open>Keyword counting\<close>

text \<open>
  The keyword feature as the specification words it: the number of occurrences of
  the keyword in the lower-cased messages of the entries whose level is \<open>error\<close>.
\<close>

fun count_occurrences :: "string \<Rightarrow> string \<Rightarrow> nat" where
  "count_occurrences [] kw = 0"
| "count_occurrences (c # s) kw =
     (if starts_with (c # s) kw then 1 else 0) + count_occurrences s kw"

definition keyword_feature_spec :: "string \<Rightarrow> LogData list \<Rightarrow> real" where
  "keyword_feature_spec kw entries =
     real (sum_list (map (\<lambda>log. count_occurrences (lower (message log)) kw)
                      (filter (\<lambda>log. level log = ''error'') entries)))"

text \<open>
  The number of entries whose level, lower-cased, is \<open>error\<close> and whose lower-cased
  message contains the keyword.
\<close>

definition error_entries_with :: "string \<Rightarrow> LogData list \<Rightarrow> nat" where
  "error_entries_with kw entries =
     length (filter (\<lambda>log. lower (level log) = ''error'' \<and> contains (lower (message log)) kw) entries)"

subsection \<open>Example inputs\<close>

definition log_twice :: LogData where
  "log_twice = \<lparr>log_timestamp = 0, level = ''error'', message = ''timeout after timeout'', service = ''api''\<rparr>"

definition log_upper :: LogData where
  "log_upper = \<lparr>log_timestamp = 0, level = ''ERROR'', message = ''Connection failed'', service = ''api''\<rparr>"

definition failing_anomaly_detector :: AnomalyDetector where
  "failing_anomaly_detector =
     \<lparr>contamination = 0.15,
      isolation_forest =
        \<lparr>if_predict = (\<lambda>X. Inl (LibraryError ''feature count mismatch'')),
         if_score_samples = (\<lambda>X. Inr [- 0.4])\<rparr>,
      elliptic_envelope_fitted = True,
      is_trained = True\<rparr>"

definition failing_failure_detector :: FailureDetector where
  "failing_failure_detector =
     \<lparr>classifier =
        \<lparr>rf_predict_proba = (\<lambda>X. Inr [[0.2, 0.8]]),
         rf_predict = (\<lambda>X. Inl (LibraryError ''feature count mismatch'')),
         rf_feature_importances = Inr []\<rparr>,
      fd_is_trained = True\<rparr>"

text \<open>A trained failure detector whose forest answers class 1 with probability 0.8.\<close>

definition detecting_failure_detector :: FailureDetector where
  "detecting_failure_detector =
     \<lparr>classifier =
        \<lparr>rf_predict_proba = (\<lambda>X. Inr [[0.2, 0.8]]),
         rf_predict = (\<lambda>X. Inr [1]),
         rf_feature_importances = Inr [1]\<rparr>,
      fd_is_trained = True\<rparr>"

definition failing_service :: ModelService where
  "failing_service =
     \<lparr>anomaly_detector = failing_anomaly_detector,
      failure_detector = failing_failure_detector,
      models_loaded = True\<rparr>"

definition default_settings :: Settings where
  "default_settings = \<lparr>anomaly_threshold = 0.85, failure_detection_window = 300\<rparr>"

definition plain_metric :: MetricData where
  "plain_metric = \<lparr>metric_type = CPU_USAGE, val = 50, timestamp = 0, labels = []\<rparr>"

section \<open>Dictionaries built by \<open>dict_of\<close>\<close>

lemma update_not_Nil: "AList.update k v d \<noteq> []"
  by (cases d) auto

lemma foldl_update_Nil:
  "foldl (\<lambda>d (k, v). AList.update k v d) d ps = [] \<longleftrightarrow> d = [] \<and> ps = []"
  by (induction ps arbitrary: d) (auto simp: update_not_Nil split: prod.splits)

lemma dict_of_Nil_iff: "dict_of ps = [] \<longleftrightarrow> ps = []"
  by (simp add: dict_of_def foldl_update_Nil)

lemma foldl_update_distinct:
  "distinct (map fst d) \<Longrightarrow> distinct (map fst (foldl (\<lambda>d (k, v). AList.update k v d) d ps))"
  by (induction ps arbitrary: d) (auto simp: distinct_update split: prod.splits)

lemma distinct_dict_of: "distinct (map fst (dict_of ps))"
  by (simp add: dict_of_def foldl_update_distinct)

text \<open>Looking up the selected keys of a dictionary gives the values of its selected items.\<close>

lemma dict_get_values:
  assumes "distinct (map fst d)"
  shows "map (\<lambda>k. dict_get d k dflt) (filter P (map fst d)) = map snd (filter (\<lambda>(k, v). P k) d)"
proof -
  have "map (\<lambda>k. dict_get d k dflt) (filter P (map fst d))
      = map (\<lambda>p. dict_get d (fst p) dflt) (filter (\<lambda>p. P (fst p)) d)"
    by (simp add: filter_map comp_def)
  also have "\<dots> = map snd (filter (\<lambda>p. P (fst p)) d)"
  proof (rule map_cong [OF refl])
    fix p assume "p \<in> set (filter (\<lambda>p. P (fst p)) d)"
    then have "p \<in> set d" by simp
    with assms have "map_of d (fst p) = Some (snd p)"
      by (cases p) simp
    then show "dict_get d (fst p) dflt = snd p"
      by (simp add: dict_get_def)
  qed
  finally show ?thesis
    by (simp add: case_prod_unfold)
qed

lemma avg_of_keys_with:
  "distinct (map fst d) \<Longrightarrow>
   avg_of d (keys_with kw d) = mean (map snd (filter (\<lambda>(k, v). contains (lower k) kw) d))"
  by (simp add: avg_of_def keys_with_def dict_get_values)

lemma keys_with_Nil_iff:
  "keys_with kw d = [] \<longleftrightarrow> map snd (filter (\<lambda>(k, v). contains (lower k) kw) d) = []"
  by (auto simp: keys_with_def filter_empty_conv)

section \<open>Severity bands\<close>

text \<open>What the \<open>try\<close> blocks of the two \<open>predict\<close> methods return on success.\<close>

lemma and_then_Inr_iff: "and_then m f = Inr y \<longleftrightarrow> (\<exists>x. m = Inr x \<and> f x = Inr y)"
  by (cases m) auto

lemma anomaly_try_severity:
  "AnomalyDetector_predict_try d X names = Inr (flag, score, sev, action, det) \<Longrightarrow>
   sev = determine_severity score"
  by (auto simp: AnomalyDetector_predict_try_def and_then_Inr_iff Let_def)

lemma failure_try_severity:
  "FailureDetector_predict_try fmt_pct fd X names =
     Inr (True, ftype, sev, actions, conf, cause, services, det) \<Longrightarrow>
   sev = determine_failure_severity conf X names"
  by (auto simp: FailureDetector_predict_try_def and_then_Inr_iff Let_def split: if_splits)

text \<open>
  Claim C8.  The severity of a score is CRITICAL exactly from 0.9 up, HIGH exactly
  on [0.7, 0.9), MEDIUM exactly on [0.5, 0.7) and LOW exactly below 0.5: four
  contiguous ranges that do not overlap and leave no gap.  The failure detector
  gives a confidence the severity that the anomaly detector gives the same
  number as a score.  The severity in every result of \<open>AnomalyDetector.predict\<close>
  is the band of the anomaly score in that result, and the severity in every
  detected failure of a trained \<open>FailureDetector.predict\<close> is the band of the
  confidence in that result.
\<close>

theorem severity_bands:
  "(determine_severity s = CRITICAL \<longleftrightarrow> 0.9 \<le> s) \<and>
   (determine_severity s = HIGH \<longleftrightarrow> 0.7 \<le> s \<and> s < 0.9) \<and>
   (determine_severity s = MEDIUM \<longleftrightarrow> 0.5 \<le> s \<and> s < 0.7) \<and>
   (determine_severity s = LOW \<longleftrightarrow> s < 0.5) \<and>
   determine_failure_severity s X names = determine_severity s \<and>
   (AnomalyDetector_predict d Xa names_a = (flag, score, sev, action, det) \<longrightarrow>
      sev = determine_severity score) \<and>
   (fd_is_trained fd \<and>
    FailureDetector_predict fmt_pct fd Xf names_f =
      Inr (True, ftype, fsev, actions, conf, cause, services, fdet) \<longrightarrow>
      fsev = determine_severity conf)"
proof -
  have bands: "(determine_severity s = CRITICAL \<longleftrightarrow> 0.9 \<le> s) \<and>
      (determine_severity s = HIGH \<longleftrightarrow> 0.7 \<le> s \<and> s < 0.9) \<and>
      (determine_severity s = MEDIUM \<longleftrightarrow> 0.5 \<le> s \<and> s < 0.7) \<and>
      (determine_severity s = LOW \<longleftrightarrow> s < 0.5)"
    by (auto simp: determine_severity_def)
  have same: "determine_failure_severity c Y ns = determine_severity c" for c Y ns
    by (simp add: determine_severity_def determine_failure_severity_def)
  have anomaly: "sev = determine_severity score"
    if "AnomalyDetector_predict d Xa names_a = (flag, score, sev, action, det)"
  proof (cases "is_trained d")
    case False
    with that show ?thesis
      by (auto simp: AnomalyDetector_predict_def determine_severity_def)
  next
    case True
    show ?thesis
    proof (cases "AnomalyDetector_predict_try d Xa names_a")
      case (Inl e)
      with True that show ?thesis
        by (auto simp: AnomalyDetector_predict_def anomaly_failed_def determine_severity_def)
    next
      case (Inr r)
      with True that have "AnomalyDetector_predict_try d Xa names_a = Inr (flag, score, sev, action, det)"
        by (simp add: AnomalyDetector_predict_def)
      then show ?thesis
        by (rule anomaly_try_severity)
    qed
  qed
  have failure: "fsev = determine_severity conf"
    if "fd_is_trained fd"
      "FailureDetector_predict fmt_pct fd Xf names_f =
         Inr (True, ftype, fsev, actions, conf, cause, services, fdet)"
  proof (cases "FailureDetector_predict_try fmt_pct fd Xf names_f")
    case (Inl e)
    with that show ?thesis
      by (simp add: FailureDetector_predict_def failure_failed_def)
  next
    case (Inr r)
    with that have "FailureDetector_predict_try fmt_pct fd Xf names_f =
        Inr (True, ftype, fsev, actions, conf, cause, services, fdet)"
      by (simp add: FailureDetector_predict_def)
    from failure_try_severity [OF this] show ?thesis
      by (simp add: same)
  qed
  from bands same anomaly failure show ?thesis
    by blast
qed

theorem severity_bands_witness:
  "AnomalyDetector_predict trained_example (Arr2 [[90]]) (Some [''cpu_usage_mean''])
     = (True, 0, LOW, NO_ACTION,
        [(''anomaly_score'', VFloat 0), (''affected_features'', VNames [''cpu_usage_mean'']),
         (''model_confidence'', VFloat 0.96), (''threshold_used'', VFloat 0.15)]) \<and>
   LOW = determine_severity 0 \<and>
   fd_is_trained detecting_failure_detector \<and>
   FailureDetector_predict (\<lambda>x. ''25.00%'') detecting_failure_detector (Arr2 [[0.25]])
       (Some [''error_rate''])
     = Inr (True, Some ''unknown'', HIGH, [ALERT_ADMIN], 0.8,
            Some ''High error rate (25.00%)'', [''api-service'', ''worker-service''],
            [(''confidence'', VFloat 0.8), (''prediction_probability'', VFloat 0.8),
             (''feature_importance'', VDict [(''error_rate'', 1)])]) \<and>
   HIGH = determine_severity 0.8"
proof -
  have a: "AnomalyDetector_predict trained_example (Arr2 [[90]]) (Some [''cpu_usage_mean''])
     = (True, 0, LOW, NO_ACTION,
        [(''anomaly_score'', VFloat 0), (''affected_features'', VNames [''cpu_usage_mean'']),
         (''model_confidence'', VFloat 0.96), (''threshold_used'', VFloat 0.15)])"
    by (simp add: AnomalyDetector_predict_def AnomalyDetector_predict_try_def trained_example_def
        index0_def normalize_score_def determine_severity_def recommend_action_def
        get_affected_features_def dict_of_def)
  have t: "fd_is_trained detecting_failure_detector"
    by (simp add: detecting_failure_detector_def)
  have f: "FailureDetector_predict (\<lambda>x. ''25.00%'') detecting_failure_detector (Arr2 [[0.25]])
       (Some [''error_rate''])
     = Inr (True, Some ''unknown'', HIGH, [ALERT_ADMIN], 0.8,
            Some ''High error rate (25.00%)'', [''api-service'', ''worker-service''],
            [(''confidence'', VFloat 0.8), (''prediction_probability'', VFloat 0.8),
             (''feature_importance'', VDict [(''error_rate'', 1)])])"
    by (simp add: FailureDetector_predict_def FailureDetector_predict_try_def
        detecting_failure_detector_def index0_def np_max_def identify_failure_type_def
        determine_failure_severity_def recommend_remediation_actions_def actions_map_def
        analyze_root_cause_def identify_affected_services_def get_feature_importance_def
        dict_of_def dict_get_def Let_def)
  note s = severity_bands [where d = trained_example and Xa = "Arr2 [[90]]"
      and names_a = "Some [''cpu_usage_mean'']" and fd = detecting_failure_detector
      and fmt_pct = "\<lambda>x. ''25.00%''" and Xf = "Arr2 [[0.25]]"
      and names_f = "Some [''error_rate'']"]
  from s a t f show ?thesis
    by blast
qed

section \<open>Score normalisation\<close>

text \<open>
  Claim C2.  \<open>predict\<close> passes the negated raw score to \<open>normalize_score\<close>, which
  negates its argument again.  For the raw score \<open>-0.4\<close> of a trained forest the
  returned anomaly score is 0, where \<open>clamp(raw_negated_score * 2, 0, 1)\<close> is 0.8.
\<close>

theorem anomaly_score_double_negation:
  "fst (snd (AnomalyDetector_predict trained_example (Arr2 [[1]]) None)) = 0 \<and>
   anomaly_score_spec (- 0.4) = 0.8"
  by (simp add: AnomalyDetector_predict_def AnomalyDetector_predict_try_def trained_example_def
      index0_def normalize_score_def determine_severity_def recommend_action_def
      get_affected_features_def anomaly_score_spec_def clamp_def)

section \<open>Training with too few samples\<close>

text \<open>
  Claim C7.  \<open>train\<close> on fewer than 10 rows returns the detector as it was, without
  raising; an untrained detector therefore stays untrained, and its \<open>predict\<close>
  returns the default: not an anomaly, score 0.0, LOW, NO_ACTION and empty
  details (no affected features).
\<close>

theorem train_insufficient_samples:
  "shape0 X < 10 \<Longrightarrow>
     AnomalyDetector_train fit_if fit_ee d X = d \<and>
     (\<not> is_trained d \<longrightarrow>
        \<not> is_trained (AnomalyDetector_train fit_if fit_ee d X) \<and>
        AnomalyDetector_predict (AnomalyDetector_train fit_if fit_ee d X) row names =
          (False, 0.0, LOW, NO_ACTION, []))"
  by (simp add: AnomalyDetector_train_def AnomalyDetector_predict_def)

theorem train_insufficient_samples_witness:
  "shape0 (Arr2 [[1, 2], [3, 4], [5, 6]]) < 10 \<and> \<not> is_trained untrained_example \<and>
   AnomalyDetector_train (\<lambda>f X. Inr f) (\<lambda>X. Inr ()) untrained_example (Arr2 [[1, 2], [3, 4], [5, 6]])
     = untrained_example \<and>
   AnomalyDetector_predict
     (AnomalyDetector_train (\<lambda>f X. Inr f) (\<lambda>X. Inr ()) untrained_example (Arr2 [[1, 2], [3, 4], [5, 6]]))
     (Arr2 [[7, 8]]) (Some [''cpu_usage_mean'', ''cpu_usage_std''])
     = (False, 0.0, LOW, NO_ACTION, [])"
proof -
  have h: "shape0 (Arr2 [[1, 2], [3, 4], [5, 6]]) < 10"
    by simp
  have u: "\<not> is_trained untrained_example"
    by (simp add: untrained_example_def)
  from train_insufficient_samples [OF h, of "\<lambda>f X. Inr f" "\<lambda>X. Inr ()" untrained_example
      "Arr2 [[7, 8]]" "Some [''cpu_usage_mean'', ''cpu_usage_std'']"] h u
  show ?thesis by blast
qed

section \<open>Combining feature arrays\<close>

text \<open>
  Claim C9.  Combining two empty arrays gives the empty array; combining a
  non-empty array with the empty one, on either side, gives the non-empty array
  unchanged; combining two non-empty rows gives the entries of the first followed
  by the entries of the second, each in its own order.
\<close>

theorem combine_features_laws:
  "combine_features (Arr1 []) (Arr1 []) = Inr (Arr1 []) \<and>
   (size_nd A \<noteq> 0 \<longrightarrow> combine_features A (Arr1 []) = Inr A) \<and>
   (size_nd B \<noteq> 0 \<longrightarrow> combine_features (Arr1 []) B = Inr B) \<and>
   (a \<noteq> [] \<and> b \<noteq> [] \<longrightarrow> combine_features (Arr2 [a]) (Arr2 [b]) = Inr (Arr2 [a @ b]))"
  by (simp add: combine_features_def concatenate_axis1_def)

theorem combine_features_laws_witness:
  "size_nd (Arr2 [[1, 2, 3]]) \<noteq> 0 \<and> size_nd (Arr2 [[6, 7]]) \<noteq> 0 \<and>
   [1, 2, 3] \<noteq> ([] :: real list) \<and> [6, 7] \<noteq> ([] :: real list) \<and>
   combine_features (Arr2 [[1, 2, 3]]) (Arr1 []) = Inr (Arr2 [[1, 2, 3]]) \<and>
   combine_features (Arr1 []) (Arr2 [[6, 7]]) = Inr (Arr2 [[6, 7]]) \<and>
   combine_features (Arr2 [[1, 2, 3]]) (Arr2 [[6, 7]]) = Inr (Arr2 [[1, 2, 3, 6, 7]])"
  using combine_features_laws [of "Arr2 [[1, 2, 3]]" "Arr2 [[6, 7]]" "[1, 2, 3]" "[6, 7]"]
  by simp

section \<open>Action selection\<close>

text \<open>
  Claim C4, as the specification words it, fails on the code in two places.  With
  \<open>cpu_usage_mean = 100\<close>, \<open>memory_usage_mean = 0\<close> and score 0.6 the code answers
  SCALE_UP, because it takes the mean of the cpu features and the mean of the
  memory features separately, while the single mean of both is 50 and the
  specification's rules end in NO_ACTION.  With no feature names and score 0.6
  the code answers ALERT_ADMIN, where the specification's rules end in NO_ACTION.
\<close>

theorem recommend_action_spec_counterexample:
  "recommend_action 0.6 (Arr2 [[100, 0]]) (Some [''cpu_usage_mean'', ''memory_usage_mean''])
     = Inr SCALE_UP \<and>
   recommend_action_spec 0.6 [(''cpu_usage_mean'', 100), (''memory_usage_mean'', 0)] = NO_ACTION \<and>
   recommend_action 0.6 (Arr2 [[100, 0]]) None = Inr ALERT_ADMIN \<and>
   recommend_action_spec 0.6 [] = NO_ACTION"
  by (simp add: recommend_action_def recommend_action_spec_def dict_of_def keys_with_def
      avg_of_def dict_get_def mean_def lower_def lower_char_def)

text \<open>
  Claim C4, amended.  Below score 0.5 the action is NO_ACTION whatever the
  features.  From 0.5 up the first matching rule wins: no named feature gives
  ALERT_ADMIN; names containing \<open>cpu\<close> with a mean above 80, or names containing
  \<open>memory\<close> with a mean above 80 (each mean taken on its own), give SCALE_UP; names
  containing \<open>error\<close> with a mean above 10 give RESTART_POD; names containing
  \<open>request\<close> with a mean above 1000 give THROTTLE_API; a score of at least 0.8
  gives ALERT_ADMIN; otherwise NO_ACTION.  Names are compared in lower case.
\<close>

theorem recommend_action_priority:
  "recommend_action score (Arr2 [row]) names =
     Inr (let feature_dict = (case names of None \<Rightarrow> [] | Some ns \<Rightarrow> dict_of (zip ns row));
              vals = (\<lambda>kw. map snd (filter (\<lambda>(k, v). contains (lower k) kw) feature_dict))
          in
            if score < 0.5 then NO_ACTION
            else if feature_dict = [] then ALERT_ADMIN
            else if (vals ''cpu'' \<noteq> [] \<and> mean (vals ''cpu'') > 80) \<or>
                    (vals ''memory'' \<noteq> [] \<and> mean (vals ''memory'') > 80) then SCALE_UP
            else if vals ''error'' \<noteq> [] \<and> mean (vals ''error'') > 10 then RESTART_POD
            else if vals ''request'' \<noteq> [] \<and> mean (vals ''request'') > 1000 then THROTTLE_API
            else if score \<ge> 0.8 then ALERT_ADMIN
            else NO_ACTION)"
proof (cases names)
  case None
  then show ?thesis
    by (simp add: recommend_action_def)
next
  case (Some ns)
  show ?thesis
  proof (cases "ns = [] \<or> row = []")
    case True
    then have "dict_of (zip ns row) = []"
      by (auto simp: dict_of_Nil_iff)
    with True Some show ?thesis
      by (auto simp: recommend_action_def)
  next
    case False
    then have ne: "dict_of (zip ns row) \<noteq> []"
      by (simp add: dict_of_Nil_iff)
    note d = distinct_dict_of [of "zip ns row"]
    from False Some ne show ?thesis
      by (simp add: recommend_action_def Let_def avg_of_keys_with [OF d] keys_with_Nil_iff)
  qed
qed

theorem recommend_action_priority_witness:
  "recommend_action 0.9 (Arr2 [[50, 20, 2000]])
     (Some [''CPU_usage_mean'', ''error_rate_mean'', ''request_rate_mean'']) = Inr RESTART_POD"
  using recommend_action_priority
    [of "0.9" "[50, 20, 2000]" "Some [''CPU_usage_mean'', ''error_rate_mean'', ''request_rate_mean'']"]
  by (simp add: dict_of_def mean_def lower_def lower_char_def)

section \<open>The heuristic of the untrained failure detector\<close>

text \<open>
  Claim C5.  For an untrained failure detector and a feature row, with
  \<open>error_rate\<close>, \<open>error_count\<close> and \<open>keyword_connection\<close> the values of the features
  of those names (0 when absent): if \<open>error_rate > 0.2\<close> or \<open>error_count > 50\<close> a
  failure of type \<open>high_error_rate\<close> is detected, with severity HIGH, actions
  RESTART_POD and ALERT_ADMIN, confidence 0.8, the formatted error rate as root
  cause and \<open>api-service\<close> as affected service; else if \<open>keyword_connection > 10\<close>
  a failure of type \<open>connection_timeout\<close> is detected, with severity MEDIUM, action
  RESTART_POD and confidence 0.7; otherwise nothing is detected, with severity
  LOW, action NO_ACTION and confidence 0.
\<close>

theorem heuristic_detection_rules:
  assumes "\<not> fd_is_trained d"
  shows
    "let error_rate = row_feature names row ''error_rate'';
         error_count = row_feature names row ''error_count'';
         keyword_connection = row_feature names row ''keyword_connection'';
         result = FailureDetector_predict fmt_pct d (Arr2 [row]) names
     in
       (error_rate > 0.2 \<or> error_count > 50 \<longrightarrow>
          result =
            Inr (True, Some ''high_error_rate'', HIGH, [RESTART_POD, ALERT_ADMIN], 0.8,
                 Some (''High error rate detected: '' @ fmt_pct error_rate), [''api-service''],
                 [(''heuristic'', VBool True), (''error_rate'', VFloat error_rate)])) \<and>
       (\<not> (error_rate > 0.2 \<or> error_count > 50) \<and> keyword_connection > 10 \<longrightarrow>
          result =
            Inr (True, Some ''connection_timeout'', MEDIUM, [RESTART_POD], 0.7,
                 Some ''Multiple connection timeout errors detected'',
                 [''database'', ''api-service''], [(''heuristic'', VBool True)])) \<and>
       (\<not> (error_rate > 0.2 \<or> error_count > 50) \<and> \<not> keyword_connection > 10 \<longrightarrow>
          result = Inr (False, None, LOW, [NO_ACTION], 0.0, None, [], []))"
proof (cases names)
  case None
  with assms show ?thesis
    by (simp add: FailureDetector_predict_def heuristic_detection_def row_feature_def)
next
  case (Some ns)
  show ?thesis
  proof (cases "ns = [] \<or> row = []")
    case True
    then have "dict_of (zip ns row) = []"
      by (auto simp: dict_of_Nil_iff)
    with True Some assms show ?thesis
      by (auto simp: FailureDetector_predict_def heuristic_detection_def row_feature_def
          dict_get_def)
  next
    case False
    have kc: "map_of fd k = None \<Longrightarrow> dict_get fd k (0::real) = 0"
      for fd :: "(string \<times> real) list" and k
      by (simp add: dict_get_def)
    from False Some assms show ?thesis
      by (auto simp: FailureDetector_predict_def heuristic_detection_def row_feature_def
          Let_def kc)
  qed
qed

theorem heuristic_detection_rules_witness:
  "\<not> fd_is_trained untrained_failure_detector \<and>
   FailureDetector_predict (\<lambda>x. ''25.00%'') untrained_failure_detector
       (Arr2 [[0.25, 3]]) (Some [''error_rate'', ''keyword_connection''])
     = Inr (True, Some ''high_error_rate'', HIGH, [RESTART_POD, ALERT_ADMIN], 0.8,
            Some ''High error rate detected: 25.00%'', [''api-service''],
            [(''heuristic'', VBool True), (''error_rate'', VFloat 0.25)]) \<and>
   FailureDetector_predict (\<lambda>x. ''25.00%'') untrained_failure_detector
       (Arr2 [[0.1, 11]]) (Some [''error_rate'', ''keyword_connection''])
     = Inr (True, Some ''connection_timeout'', MEDIUM, [RESTART_POD], 0.7,
            Some ''Multiple connection timeout errors detected'',
            [''database'', ''api-service''], [(''heuristic'', VBool True)]) \<and>
   FailureDetector_predict (\<lambda>x. ''25.00%'') untrained_failure_detector
       (Arr2 [[0.1, 3]]) (Some [''error_rate'', ''keyword_connection''])
     = Inr (False, None, LOW, [NO_ACTION], 0.0, None, [], [])"
proof -
  have u: "\<not> fd_is_trained untrained_failure_detector"
    by (simp add: untrained_failure_detector_def)
  note r = heuristic_detection_rules [OF u, of "Some [''error_rate'', ''keyword_connection'']" _
      "\<lambda>x. ''25.00%''"]
  from r [of "[0.25, 3]"] r [of "[0.1, 11]"] r [of "[0.1, 3]"] u show ?thesis
    by (simp add: Let_def row_feature_def dict_of_def dict_get_def)
qed

section \<open>The clock in log feature extraction\<close>

text \<open>
  Claim C3, as the specification words it, fails on the code: \<open>preprocess_logs\<close>
  has no parameter for the current instant and reads the system clock.  The same
  log sequence and window give a feature vector at clock reading 0 and the empty
  result at a clock reading of 1000 seconds.
\<close>

theorem preprocess_logs_clock_counterexample:
  "preprocess_logs 0 [log_twice] 300 \<noteq> preprocess_logs 1000000000 [log_twice] 300"
  by code_simp

text \<open>
  Claim C3, amended.  The result of \<open>preprocess_logs\<close> is determined by the log
  sequence, the window length and the reading of the system clock at the call:
  two calls on the same logs and window whose clock readings select the same
  entries give identical results.
\<close>

theorem preprocess_logs_same_window:
  "filter (\<lambda>log. log_timestamp log \<ge> t1 - w * 1000000) logs =
   filter (\<lambda>log. log_timestamp log \<ge> t2 - w * 1000000) logs \<Longrightarrow>
   preprocess_logs t1 logs w = preprocess_logs t2 logs w"
  by (simp add: preprocess_logs_def Let_def)

theorem preprocess_logs_same_window_witness:
  "filter (\<lambda>log. log_timestamp log \<ge> 0 - 300 * 1000000) [log_twice] =
   filter (\<lambda>log. log_timestamp log \<ge> 5000000 - 300 * 1000000) [log_twice] \<and>
   preprocess_logs 0 [log_twice] 300 = preprocess_logs 5000000 [log_twice] 300"
proof -
  have h: "filter (\<lambda>log. log_timestamp log \<ge> 0 - 300 * 1000000) [log_twice] =
      filter (\<lambda>log. log_timestamp log \<ge> 5000000 - 300 * 1000000) [log_twice]"
    by (simp add: log_twice_def)
  from preprocess_logs_same_window [OF h] h show ?thesis by blast
qed

section \<open>Keyword features\<close>

lemma dict_get_update:
  "dict_get (AList.update k v d) k' dflt = (if k' = k then v else dict_get d k' dflt)"
  by (simp add: dict_get_def update_conv')

lemma scan_fold_get:
  "distinct ks \<Longrightarrow>
   dict_get
     (foldl (\<lambda>d keyword. if contains msg keyword
                          then AList.update keyword (dict_get d keyword 0 + 1) d else d) d ks)
     kw (0::nat)
   = (if kw \<in> set ks \<and> contains msg kw then dict_get d kw 0 + 1 else dict_get d kw 0)"
  by (induction ks arbitrary: d) (auto simp: dict_get_update)

lemma scan_fold_keys:
  "set ks \<subseteq> fst ` set d \<Longrightarrow>
   map fst
     (foldl (\<lambda>d keyword. if contains msg keyword
                          then AList.update keyword (dict_get d keyword (0::nat) + 1) d else d) d ks)
   = map fst d"
proof (induction ks arbitrary: d)
  case Nil
  show ?case by simp
next
  case (Cons k ks)
  let ?d' = "if contains msg k then AList.update k (dict_get d k 0 + 1) d else d"
  have keys: "map fst ?d' = map fst d"
    using Cons.prems by (auto simp: update_keys)
  then have "set (map fst ?d') = set (map fst d)"
    by simp
  then have "fst ` set ?d' = fst ` set d"
    by (simp only: set_map)
  with Cons.prems have "set ks \<subseteq> fst ` set ?d'"
    by simp
  from Cons.IH [OF this] keys show ?case
    by simp
qed

lemma distinct_error_keywords: "distinct error_keywords"
  by (simp add: error_keywords_def)

lemma scan_message_get:
  "dict_get (scan_message msg d) kw 0 =
     (if kw \<in> set error_keywords \<and> contains msg kw then dict_get d kw 0 + 1 else dict_get d kw 0)"
  unfolding scan_message_def by (rule scan_fold_get [OF distinct_error_keywords])

lemma scan_message_keys:
  "set error_keywords \<subseteq> fst ` set d \<Longrightarrow> map fst (scan_message msg d) = map fst d"
  unfolding scan_message_def by (rule scan_fold_keys)

lemma keyword_fold_keys:
  "set error_keywords \<subseteq> fst ` set d \<Longrightarrow>
   map fst
     (foldl (\<lambda>d log. if lower (level log) = ''error''
                      then scan_message (lower (message log)) d else d) d logs)
   = map fst d"
proof (induction logs arbitrary: d)
  case Nil
  show ?case by simp
next
  case (Cons log logs)
  have "set error_keywords \<subseteq> fst ` set (scan_message (lower (message log)) d)"
    using scan_message_keys [OF Cons.prems, of "lower (message log)"] Cons.prems
    by (metis set_map)
  with Cons show ?case
    by (simp add: scan_message_keys)
qed

lemma keyword_fold_get:
  "kw \<in> set error_keywords \<Longrightarrow>
   dict_get
     (foldl (\<lambda>d log. if lower (level log) = ''error''
                      then scan_message (lower (message log)) d else d) d logs)
     kw 0
   = dict_get d kw 0 + error_entries_with kw logs"
  by (induction logs arbitrary: d) (auto simp: scan_message_get error_entries_with_def)

lemma alist_by_keys:
  "distinct (map fst d) \<Longrightarrow> d = map (\<lambda>k. (k, dict_get d k dflt)) (map fst d)"
proof -
  assume dist: "distinct (map fst d)"
  have "map (\<lambda>k. (k, dict_get d k dflt)) (map fst d) = map (\<lambda>p. (fst p, dict_get d (fst p) dflt)) d"
    by (simp add: comp_def)
  also have "\<dots> = map (\<lambda>p. p) d"
  proof (rule map_cong [OF refl])
    fix p assume "p \<in> set d"
    with dist have "map_of d (fst p) = Some (snd p)"
      by (cases p) simp
    then show "(fst p, dict_get d (fst p) dflt) = p"
      by (simp add: dict_get_def)
  qed
  finally show ?thesis by simp
qed

lemma keyword_counts_keys: "map fst (keyword_counts logs) = error_keywords"
  unfolding keyword_counts_def
  by (subst keyword_fold_keys) (auto simp: comp_def image_image)

lemma keyword_counts_get:
  "kw \<in> set error_keywords \<Longrightarrow> dict_get (keyword_counts logs) kw 0 = error_entries_with kw logs"
  unfolding keyword_counts_def
  by (subst keyword_fold_get) (auto simp: dict_get_def map_of_map_restrict)

lemma keyword_counts_eq:
  "keyword_counts logs = map (\<lambda>kw. (kw, error_entries_with kw logs)) error_keywords"
proof -
  have dist: "distinct (map fst (keyword_counts logs))"
    by (simp add: keyword_counts_keys distinct_error_keywords)
  have "keyword_counts logs = map (\<lambda>k. (k, dict_get (keyword_counts logs) k 0)) error_keywords"
    using alist_by_keys [OF dist, of 0] by (simp add: keyword_counts_keys)
  also have "\<dots> = map (\<lambda>kw. (kw, error_entries_with kw logs)) error_keywords"
    by (rule map_cong [OF refl]) (simp add: keyword_counts_get)
  finally show ?thesis .
qed

lemma log_feature_keys:
  "map fst (log_features recent) =
     [''error_count'', ''warn_count'', ''info_count'', ''total_logs'', ''error_rate'',
      ''unique_services'', ''max_service_errors'', ''keyword_timeout'', ''keyword_connection'',
      ''keyword_failed'', ''keyword_exception'', ''keyword_error'', ''keyword_crashed'']"
  by (simp add: log_features_def keyword_counts_eq error_keywords_def dict_of_def Let_def)

lemma log_feature_keyword:
  "kw \<in> set error_keywords \<Longrightarrow>
   map_of (log_features recent) (''keyword_'' @ kw) = Some (real (error_entries_with kw recent))"
  by (auto simp: log_features_def keyword_counts_eq error_keywords_def dict_of_def Let_def)

lemma map_of_foldl_update:
  "map_of (foldl (\<lambda>d (k, v). AList.update k v d) d ps) = map_of d ++ map_of (rev ps)"
  by (induction ps arbitrary: d) (auto simp: update_conv' map_add_upd_left split: prod.splits)

lemma map_of_dict_of: "map_of (dict_of ps) = map_of (rev ps)"
  by (simp add: dict_of_def map_of_foldl_update)

lemma map_of_dict_of_zip_map:
  "map_of (dict_of (zip ns (map f ns))) k = (if k \<in> set ns then Some (f k) else None)"
proof -
  have "zip (rev ns) (rev (map f ns)) = rev (zip ns (map f ns))"
    by (rule zip_rev) simp
  then have "rev (zip ns (map f ns)) = zip (rev ns) (map f (rev ns))"
    by (simp add: rev_map)
  then show ?thesis
    by (simp add: map_of_dict_of map_of_zip_map)
qed

text \<open>
  Claim C6, as the specification words it, fails on the code.  An error entry whose
  message holds the keyword twice adds 1, not 2, to the keyword's feature; and an
  entry of level \<open>ERROR\<close> is scanned, although its level is not the string
  \<open>error\<close>.
\<close>

theorem keyword_count_counterexample:
  "feature_of (preprocess_logs 0 [log_twice] 300) ''keyword_timeout'' = Some 1 \<and>
   keyword_feature_spec ''timeout'' [log_twice] = 2 \<and>
   feature_of (preprocess_logs 0 [log_upper] 300) ''keyword_failed'' = Some 1 \<and>
   keyword_feature_spec ''failed'' [log_upper] = 0"
  by code_simp

text \<open>
  Claim C6, amended.  When the window holds at least one entry, the feature
  \<open>keyword_{kw}\<close> of each keyword of the fixed set is the number of entries of the
  window whose level, lower-cased, is \<open>error\<close> and whose lower-cased message
  contains the keyword: an entry counts once however often the keyword occurs in
  it.
\<close>

theorem keyword_features_count_entries:
  assumes "kw \<in> set error_keywords"
    and "filter (\<lambda>log. log_timestamp log \<ge> utcnow - window_size * 1000000) logs \<noteq> []"
  shows "feature_of (preprocess_logs utcnow logs window_size) (''keyword_'' @ kw) =
     Some (real (error_entries_with kw
       (filter (\<lambda>log. log_timestamp log \<ge> utcnow - window_size * 1000000) logs)))"
proof -
  let ?recent = "filter (\<lambda>log. log_timestamp log \<ge> utcnow - window_size * 1000000) logs"
  let ?names = "sort (map fst (log_features ?recent))"
  from assms(2) have "logs \<noteq> []"
    by auto
  with assms(2) have out: "preprocess_logs utcnow logs window_size = to_array (log_features ?recent)"
    by (simp add: preprocess_logs_def Let_def)
  have mem: "''keyword_'' @ kw \<in> set ?names"
    using assms(1) by (auto simp: log_feature_keys error_keywords_def)
  have "feature_of (to_array (log_features ?recent)) (''keyword_'' @ kw)
      = map_of (dict_of (zip ?names (map (\<lambda>name. dict_get (log_features ?recent) name 0) ?names)))
          (''keyword_'' @ kw)"
    by (simp add: feature_of_def to_array_def Let_def)
  also have "\<dots> = Some (dict_get (log_features ?recent) (''keyword_'' @ kw) 0)"
    using mem by (simp add: map_of_dict_of_zip_map)
  also have "\<dots> = Some (real (error_entries_with kw ?recent))"
    using log_feature_keyword [OF assms(1), of ?recent] by (simp add: dict_get_def)
  finally show ?thesis
    by (simp add: out)
qed

theorem keyword_features_count_entries_witness:
  "''timeout'' \<in> set error_keywords \<and>
   filter (\<lambda>log. log_timestamp log \<ge> 0 - 300 * 1000000) [log_twice, log_upper] \<noteq> [] \<and>
   feature_of (preprocess_logs 0 [log_twice, log_upper] 300) ''keyword_timeout'' = Some 1"
proof -
  have h1: "''timeout'' \<in> set error_keywords"
    by (simp add: error_keywords_def)
  have h2: "filter (\<lambda>log. log_timestamp log \<ge> 0 - 300 * 1000000) [log_twice, log_upper] \<noteq> []"
    by (simp add: log_twice_def)
  have n: "error_entries_with ''timeout''
      (filter (\<lambda>log. log_timestamp log \<ge> 0 - 300 * 1000000) [log_twice, log_upper]) = 1"
    by code_simp
  have r: "feature_of (preprocess_logs 0 [log_twice, log_upper] 300) (''keyword_'' @ ''timeout'')
      = Some (real 1)"
    using keyword_features_count_entries [OF h1 h2] by (simp only: n)
  then have "feature_of (preprocess_logs 0 [log_twice, log_upper] 300) ''keyword_timeout'' = Some 1"
    by simp
  with h1 h2 show ?thesis
    by blast
qed

section \<open>Labels in metric feature extraction\<close>

lemmas pm_defs = preprocess_metrics_def metric_row_def dict_of_def sort_values_timestamp_def
  column_def dict_get_def unique_def group_features_def to_array_def mean_def np_std_def
  np_min_def np_max_of_def np_median_def polyfit_slope_def

text \<open>
  Claim C10.  The labels are splatted into the row after the three columns, so a
  label key that is a column name replaces the column.  One sample of type
  \<open>cpu_usage\<close> and value 50 gives the \<open>cpu_usage_*\<close> features; the same sample with
  the label \<open>metric_type = request_rate\<close> gives \<open>request_rate_*\<close> features instead,
  and with the label \<open>value = 50\<close> the extraction raises TypeError.
\<close>

theorem label_splat_overrides_columns:
  "preprocess_metrics [plain_metric] =
     Inr (Arr2 [[50, 50, 50, 50, 0, 0, 0]],
          [''cpu_usage_max'', ''cpu_usage_mean'', ''cpu_usage_median'', ''cpu_usage_min'',
           ''cpu_usage_rate_of_change'', ''cpu_usage_std'', ''cpu_usage_trend'']) \<and>
   preprocess_metrics [plain_metric\<lparr>labels := [(''metric_type'', ''request_rate'')]\<rparr>] =
     Inr (Arr2 [[50, 50, 50, 50, 0, 0, 0]],
          [''request_rate_max'', ''request_rate_mean'', ''request_rate_median'',
           ''request_rate_min'', ''request_rate_rate_of_change'', ''request_rate_std'',
           ''request_rate_trend'']) \<and>
   preprocess_metrics [plain_metric\<lparr>labels := [(''value'', ''50'')]\<rparr>] = Inl TypeError"
  by (simp add: pm_defs plain_metric_def)

section \<open>Failures during prediction\<close>

text \<open>
  Claim C1.  An exception raised inside the \<open>try\<close> block of a trained detector's
  \<open>predict\<close> becomes the degraded result (no anomaly or no failure, score or
  confidence 0.0, LOW, NO_ACTION) whose details hold the exception under
  \<open>error\<close>.  The untrained failure detector raises nothing on a two-dimensional
  array.  An exception raised anywhere inside \<open>detect_anomaly\<close> or
  \<open>detect_failure\<close> becomes the degraded response, and a failure of the anomaly
  detector inside \<open>detect_anomaly\<close> gives the degraded fields with the error in
  the details.  The service methods return a response on every input.
\<close>

theorem prediction_failures_are_caught:
  "(is_trained d \<and> AnomalyDetector_predict_try d X names = Inl e1 \<longrightarrow>
      AnomalyDetector_predict d X names =
        (False, 0.0, LOW, NO_ACTION, [(''error'', VExc e1)])) \<and>
   (fd_is_trained fd \<and> FailureDetector_predict_try fmt_pct fd X names = Inl e2 \<longrightarrow>
      FailureDetector_predict fmt_pct fd X names =
        Inr (False, None, LOW, [NO_ACTION], 0.0, None, [], [(''error'', VExc e2)])) \<and>
   FailureDetector_predict fmt_pct fd' (Arr2 rows) names \<noteq> Inl e6 \<and>
   (detect_anomaly_try svc metrics = Inl e3 \<longrightarrow>
      detect_anomaly svc metrics =
        \<lparr>is_anomaly = False, anomaly_score = 0.0, severity = LOW,
         recommended_action = NO_ACTION, confidence = 0.0, affected_metrics = {},
         details = [(''error'', VExc e3)]\<rparr>) \<and>
   (preprocess_metrics metrics' = Inr (features, feature_names) \<and> size_nd features \<noteq> 0 \<and>
    is_trained (anomaly_detector svc') \<and>
    AnomalyDetector_predict_try (anomaly_detector svc') features (Some feature_names) = Inl e4 \<longrightarrow>
      detect_anomaly svc' metrics' =
        \<lparr>is_anomaly = False, anomaly_score = 0.0, severity = LOW,
         recommended_action = NO_ACTION, confidence = 0.0,
         affected_metrics = set (map (\<lambda>m. metric_type_value (metric_type m)) metrics'),
         details = [(''error'', VExc e4)]\<rparr>) \<and>
   (detect_failure_try settings fmt_pct utcnow svc metrics logs = Inl e5 \<longrightarrow>
      detect_failure settings fmt_pct utcnow svc metrics logs =
        \<lparr>failure_detected = False, failure_type = None, f_severity = LOW,
         recommended_actions = [NO_ACTION], f_confidence = 0.0, root_cause = None,
         affected_services = [], f_details = [(''error'', VExc e5)]\<rparr>)"
proof -
  have untrained: "heuristic_detection fmt_pct (Arr2 rows) names \<noteq> Inl e6"
    by (cases rows) (simp_all add: heuristic_detection_def Let_def)
  have total: "FailureDetector_predict fmt_pct fd' (Arr2 rows) names \<noteq> Inl e6"
    using untrained by (simp add: FailureDetector_predict_def split: sum.splits)
  have scorer: "detect_anomaly svc' metrics' =
        \<lparr>is_anomaly = False, anomaly_score = 0.0, severity = LOW,
         recommended_action = NO_ACTION, confidence = 0.0,
         affected_metrics = set (map (\<lambda>m. metric_type_value (metric_type m)) metrics'),
         details = [(''error'', VExc e4)]\<rparr>"
    if "preprocess_metrics metrics' = Inr (features, feature_names)" "size_nd features \<noteq> 0"
      "is_trained (anomaly_detector svc')"
      "AnomalyDetector_predict_try (anomaly_detector svc') features (Some feature_names) = Inl e4"
    using that
    by (simp add: detect_anomaly_def detect_anomaly_try_def AnomalyDetector_predict_def
        anomaly_failed_def dict_get_def)
  show ?thesis
    using total scorer
    by (simp add: AnomalyDetector_predict_def anomaly_failed_def FailureDetector_predict_def
        failure_failed_def detect_anomaly_def anomaly_response_failed_def detect_failure_def
        failure_response_failed_def)
qed

theorem prediction_failures_are_caught_witness:
  "is_trained failing_anomaly_detector \<and>
   AnomalyDetector_predict_try failing_anomaly_detector (Arr2 [[1]]) (Some [''error_rate''])
     = Inl (LibraryError ''feature count mismatch'') \<and>
   AnomalyDetector_predict failing_anomaly_detector (Arr2 [[1]]) (Some [''error_rate''])
     = (False, 0.0, LOW, NO_ACTION, [(''error'', VExc (LibraryError ''feature count mismatch''))]) \<and>
   fd_is_trained failing_failure_detector \<and>
   FailureDetector_predict_try (\<lambda>x. []) failing_failure_detector (Arr2 [[1]])
       (Some [''error_rate''])
     = Inl (LibraryError ''feature count mismatch'') \<and>
   FailureDetector_predict (\<lambda>x. []) failing_failure_detector (Arr2 [[1]]) (Some [''error_rate''])
     = Inr (False, None, LOW, [NO_ACTION], 0.0, None, [],
            [(''error'', VExc (LibraryError ''feature count mismatch''))]) \<and>
   FailureDetector_predict (\<lambda>x. []) untrained_failure_detector (Arr2 [[1]]) (Some [''error_rate''])
     \<noteq> Inl TypeError \<and>
   detect_anomaly_try failing_service [plain_metric\<lparr>labels := [(''value'', ''50'')]\<rparr>]
     = Inl TypeError \<and>
   detect_anomaly failing_service [plain_metric\<lparr>labels := [(''value'', ''50'')]\<rparr>]
     = \<lparr>is_anomaly = False, anomaly_score = 0.0, severity = LOW,
        recommended_action = NO_ACTION, confidence = 0.0, affected_metrics = {},
        details = [(''error'', VExc TypeError)]\<rparr> \<and>
   detect_anomaly failing_service [plain_metric]
     = \<lparr>is_anomaly = False, anomaly_score = 0.0, severity = LOW,
        recommended_action = NO_ACTION, confidence = 0.0,
        affected_metrics = {''cpu_usage''},
        details = [(''error'', VExc (LibraryError ''feature count mismatch''))]\<rparr> \<and>
   detect_failure_try default_settings (\<lambda>x. []) 0 failing_service
       [plain_metric\<lparr>labels := [(''value'', ''50'')]\<rparr>] []
     = Inl TypeError \<and>
   detect_failure default_settings (\<lambda>x. []) 0 failing_service
       [plain_metric\<lparr>labels := [(''value'', ''50'')]\<rparr>] []
     = \<lparr>failure_detected = False, failure_type = None, f_severity = LOW,
        recommended_actions = [NO_ACTION], f_confidence = 0.0, root_cause = None,
        affected_services = [], f_details = [(''error'', VExc TypeError)]\<rparr>"
proof -
  let ?E = "LibraryError ''feature count mismatch''"
  let ?bad = "[plain_metric\<lparr>labels := [(''value'', ''50'')]\<rparr>]"
  let ?names = "[''cpu_usage_max'', ''cpu_usage_mean'', ''cpu_usage_median'', ''cpu_usage_min'',
      ''cpu_usage_rate_of_change'', ''cpu_usage_std'', ''cpu_usage_trend'']"
  have h1: "is_trained failing_anomaly_detector \<and>
      AnomalyDetector_predict_try failing_anomaly_detector (Arr2 [[1]]) (Some [''error_rate'']) = Inl ?E"
    by (simp add: failing_anomaly_detector_def AnomalyDetector_predict_try_def)
  have h2: "fd_is_trained failing_failure_detector \<and>
      FailureDetector_predict_try (\<lambda>x. []) failing_failure_detector (Arr2 [[1]])
        (Some [''error_rate'']) = Inl ?E"
    by (simp add: failing_failure_detector_def FailureDetector_predict_try_def index0_def)
  have bad: "preprocess_metrics ?bad = Inl TypeError"
    by (simp add: pm_defs plain_metric_def)
  have h3: "detect_anomaly_try failing_service ?bad = Inl TypeError"
    by (simp add: detect_anomaly_try_def bad)
  have good: "preprocess_metrics [plain_metric] = Inr (Arr2 [[50, 50, 50, 50, 0, 0, 0]], ?names)"
    by (simp add: pm_defs plain_metric_def)
  have h4: "preprocess_metrics [plain_metric] = Inr (Arr2 [[50, 50, 50, 50, 0, 0, 0]], ?names) \<and>
      size_nd (Arr2 [[50, 50, 50, 50, 0, 0, 0]]) \<noteq> 0 \<and>
      is_trained (anomaly_detector failing_service) \<and>
      AnomalyDetector_predict_try (anomaly_detector failing_service)
        (Arr2 [[50, 50, 50, 50, 0, 0, 0]]) (Some ?names) = Inl ?E"
    by (simp add: good failing_service_def failing_anomaly_detector_def
        AnomalyDetector_predict_try_def)
  have h5: "detect_failure_try default_settings (\<lambda>x. []) 0 failing_service ?bad [] = Inl TypeError"
    by (simp add: detect_failure_try_def bad)
  have m: "set (map (\<lambda>m. metric_type_value (metric_type m)) [plain_metric]) = {''cpu_usage''}"
    by (simp add: plain_metric_def)
  note t = prediction_failures_are_caught
    [where d = failing_anomaly_detector and X = "Arr2 [[1]]" and names = "Some [''error_rate'']"
       and ?e1.0 = ?E and fd = failing_failure_detector and fmt_pct = "\<lambda>x. []" and ?e2.0 = ?E
       and fd' = untrained_failure_detector and rows = "[[1]]" and ?e6.0 = TypeError
       and svc = failing_service and metrics = ?bad and ?e3.0 = TypeError
       and svc' = failing_service and metrics' = "[plain_metric]"
       and features = "Arr2 [[50, 50, 50, 50, 0, 0, 0]]" and feature_names = ?names
       and ?e4.0 = ?E and settings = default_settings and utcnow = 0 and logs = "[]"
       and ?e5.0 = TypeError]
  from t h1 h2 h3 h4 h5 show ?thesis
    unfolding m by blast
qed

end
